theory Spec2Isabelle
  imports Main "HOL-Library.Word"
begin

section \<open>The simulation world of LocalPhysicsSimulation.h\<close>

text \<open>
  The header declares \<^verbatim>\<open>struct FLocalSimulation\<close>: the per-actor parallel arrays, the
  counters that partition them and the collision filter tables. Of its member functions
  only \<^verbatim>\<open>IsSimulated\<close> and \<^verbatim>\<open>GetLowLevelBody\<close> have a body in the header; all others are
  declarations.
\<close>

subsection \<open>Data\<close>

text \<open>
  Both 32-bit integer types are words of 32 bits; an \<^verbatim>\<open>int32\<close> is read through
  \<^term>\<open>sint\<close>, a \<^verbatim>\<open>uint32\<close> through \<^term>\<open>unat\<close>.
\<close>

type_synonym uint32 = "32 word"
type_synonym int32 = "32 word"

text \<open>\<^verbatim>\<open>FActorHandle*\<close>: a pointer, modelled as the address it holds.\<close>

type_synonym FActorHandlePtr = nat

text \<open>
  \<^verbatim>\<open>enum class ECreateActorType\<close>, in the order of the header.
\<close>

datatype ECreateActorType = StaticActor | KinematicActor | DynamicActor

text \<open>
  The fields of \<^verbatim>\<open>FLocalSimulation\<close> that hold the actors, their counters and the
  collision filter. The element types \<^verbatim>\<open>FActor\<close>, \<^verbatim>\<open>immediate::PxRigidBodyData\<close>,
  \<^verbatim>\<open>PxSolverBodyData\<close> and \<^verbatim>\<open>PxVec3\<close> are declared outside this file of the repository and
  stay type parameters. \<^verbatim>\<open>TMap<FActorHandle*, TSet<FActorHandle*>>\<close> is a map to sets.
\<close>

record ('actor, 'body, 'sbody, 'vec) FLocalSimulation =
  ActorHandles :: "FActorHandlePtr list"
  Actors :: "'actor list"
  RigidBodiesData :: "'body list"
  SolverBodiesData :: "'sbody list"
  PendingAcceleration :: "'vec list"
  NumSimulatedBodies :: uint32
  NumActiveSimulatedBodies :: uint32
  NumKinematicBodies :: uint32
  NumSimulatedShapesWithCollision :: uint32
  NumPositionIterations :: uint32
  NumVelocityIterations :: uint32
  SimCount :: uint32
  IgnoreCollisionPairTable :: "FActorHandlePtr \<rightharpoonup> FActorHandlePtr set"
  IgnoreCollisionActors :: "FActorHandlePtr set"
  bRecreateIterationCache :: bool
  SkipCollisionCache :: "int32 list"

subsection \<open>IsSimulated\<close>

text \<open>
  \<^verbatim>\<open>bool IsSimulated(uint32 ActorDataIndex) const { return ActorDataIndex < NumSimulatedBodies; }\<close>
  An unsigned comparison of two 32-bit values; no array is read.
\<close>

definition IsSimulated ::
  "('actor, 'body, 'sbody, 'vec, 'z) FLocalSimulation_scheme \<Rightarrow> uint32 \<Rightarrow> bool" where
  "IsSimulated s ActorDataIndex \<longleftrightarrow> ActorDataIndex < NumSimulatedBodies s"

text \<open>
  The index ranges of the other two categories, as the specification partitions the
  storage: \<^verbatim>\<open>[NumSimulatedBodies, NumSimulatedBodies + NumKinematicBodies)\<close> kinematic, the
  remainder of the storage static. The sums are those of the natural numbers the
  counters hold.
\<close>

definition IsKinematicIndex ::
  "('actor, 'body, 'sbody, 'vec, 'z) FLocalSimulation_scheme \<Rightarrow> uint32 \<Rightarrow> bool" where
  "IsKinematicIndex s i \<longleftrightarrow>
     unat (NumSimulatedBodies s) \<le> unat i \<and>
     unat i < unat (NumSimulatedBodies s) + unat (NumKinematicBodies s)"

definition IsStaticIndex ::
  "('actor, 'body, 'sbody, 'vec, 'z) FLocalSimulation_scheme \<Rightarrow> uint32 \<Rightarrow> bool" where
  "IsStaticIndex s i \<longleftrightarrow>
     unat (NumSimulatedBodies s) + unat (NumKinematicBodies s) \<le> unat i \<and>
     unat i < length (Actors s)"

subsection \<open>SetNumActiveBodies and the creation of an actor\<close>

text \<open>
  Modelled from the spec: the body of \<^verbatim>\<open>SetNumActiveBodies\<close> is not in the header. Its
  declaration there reads
  \<^verbatim>\<open>/** Sets the number of active bodies. This number is reset any time a new simulated body is created */\<close>
  \<^verbatim>\<open>void SetNumActiveBodies(uint32 NumActiveBodies);\<close>
  and the field it sets is \<^verbatim>\<open>NumActiveSimulatedBodies\<close>, "Number of dynamic bodies that are
  actually active". The value is stored as given; neither the header nor the
  specification says that it is checked against \<^verbatim>\<open>NumSimulatedBodies\<close>.
\<close>

definition SetNumActiveBodies ::
  "uint32 \<Rightarrow> ('actor, 'body, 'sbody, 'vec) FLocalSimulation
     \<Rightarrow> ('actor, 'body, 'sbody, 'vec) FLocalSimulation" where
  "SetNumActiveBodies NumActiveBodies s = s\<lparr>NumActiveSimulatedBodies := NumActiveBodies\<rparr>"

text \<open>An element put at position \<open>n\<close> of an array, the later elements moving up by one.\<close>

definition insert_at :: "nat \<Rightarrow> 'a \<Rightarrow> 'a list \<Rightarrow> 'a list" where
  "insert_at n x xs = take n xs @ x # drop n xs"

text \<open>
  Modelled from the spec: the body of \<^verbatim>\<open>template <ECreateActorType ActorType> uint32 CreateActor\<close>
  (which \<^verbatim>\<open>CreateDynamicActor\<close>, \<^verbatim>\<open>CreateKinematicActor\<close> and \<^verbatim>\<open>CreateStaticActor\<close> share) is
  not in the header. The specification says of it: "creation appends to the correct
  category partition, shifting the boundary between categories as needed (e.g., adding a
  kinematic actor inserts at the kinematic/static boundary, not at the end, to preserve
  the ordered-partition invariant); all per-actor arrays grow in lock-step", with the
  ranges \<^verbatim>\<open>[0, NumSimulatedBodies)\<close> dynamic, then \<^verbatim>\<open>NumKinematicBodies\<close> kinematic, then
  static. The header adds that the iteration cache must be invalidated when an actor is
  added, and that the number of active bodies "is reset any time a new simulated body is
  created": the count of active bodies is again the count of simulated bodies, as it is
  when \<^verbatim>\<open>SetNumActiveBodies\<close> was never called.

  \<open>Handle\<close> is the address of the new \<^verbatim>\<open>FActorHandle\<close>; \<open>Actor\<close>, \<open>Body\<close> and \<open>SolverBody\<close> are
  the entries built from the rigid actor and the transform that the caller passes. The
  new entry of \<^verbatim>\<open>PendingAcceleration\<close> is zero.
\<close>

definition CreateActorIndex ::
  "ECreateActorType \<Rightarrow> ('actor, 'body, 'sbody, 'vec, 'z) FLocalSimulation_scheme \<Rightarrow> nat" where
  "CreateActorIndex ActorType s =
     (case ActorType of
        DynamicActor \<Rightarrow> unat (NumSimulatedBodies s)
      | KinematicActor \<Rightarrow> unat (NumSimulatedBodies s) + unat (NumKinematicBodies s)
      | StaticActor \<Rightarrow> length (Actors s))"

definition CreateActor ::
  "ECreateActorType \<Rightarrow> FActorHandlePtr \<Rightarrow> 'actor \<Rightarrow> 'body \<Rightarrow> 'sbody
     \<Rightarrow> ('actor, 'body, 'sbody, 'vec :: zero) FLocalSimulation
     \<Rightarrow> ('actor, 'body, 'sbody, 'vec) FLocalSimulation" where
  "CreateActor ActorType Handle Actor Body SolverBody s =
     (let ActorDataIndex = CreateActorIndex ActorType s;
          s1 = s\<lparr> ActorHandles := insert_at ActorDataIndex Handle (ActorHandles s),
                  Actors := insert_at ActorDataIndex Actor (Actors s),
                  RigidBodiesData := insert_at ActorDataIndex Body (RigidBodiesData s),
                  SolverBodiesData := insert_at ActorDataIndex SolverBody (SolverBodiesData s),
                  PendingAcceleration := insert_at ActorDataIndex 0 (PendingAcceleration s),
                  bRecreateIterationCache := True \<rparr>
      in case ActorType of
           DynamicActor \<Rightarrow>
             s1\<lparr> NumSimulatedBodies := NumSimulatedBodies s + 1,
                 NumActiveSimulatedBodies := NumSimulatedBodies s + 1 \<rparr>
         | KinematicActor \<Rightarrow> s1\<lparr> NumKinematicBodies := NumKinematicBodies s + 1 \<rparr>
         | StaticActor \<Rightarrow> s1)"

text \<open>
  Modelled from the spec: the body of \<^verbatim>\<open>AddRadialForce(int32 ActorDataIndex, ...)\<close> is not in
  the header. The specification says which bodies it acts on: it "applies a radial
  effect to one active simulated body", "calling on an inactive or out-of-range index is
  a no-op", and an implementation is to "treat any index \<ge> active-body-count as a
  no-op". So the index names an active body when it is not negative and lies below
  \<^verbatim>\<open>NumActiveSimulatedBodies\<close>.
\<close>

definition IsActiveBody ::
  "('actor, 'body, 'sbody, 'vec, 'z) FLocalSimulation_scheme \<Rightarrow> int32 \<Rightarrow> bool" where
  "IsActiveBody s ActorDataIndex \<longleftrightarrow>
     0 \<le> sint ActorDataIndex \<and> nat (sint ActorDataIndex) < unat (NumActiveSimulatedBodies s)"

text \<open>A world of four actors: two dynamic, one kinematic, one static.\<close>

definition world4 :: "(nat, nat, nat, nat) FLocalSimulation" where
  "world4 = \<lparr> ActorHandles = [100, 101, 102, 103], Actors = [0, 1, 2, 3],
     RigidBodiesData = [0, 1, 2, 3], SolverBodiesData = [0, 0, 0, 0],
     PendingAcceleration = [0, 0, 0, 0],
     NumSimulatedBodies = 2, NumActiveSimulatedBodies = 2, NumKinematicBodies = 1,
     NumSimulatedShapesWithCollision = 0, NumPositionIterations = 1,
     NumVelocityIterations = 1, SimCount = 0,
     IgnoreCollisionPairTable = Map.empty, IgnoreCollisionActors = {},
     bRecreateIterationCache = True, SkipCollisionCache = [] \<rparr>"

section \<open>Theorems\<close>

text \<open>
  C10. For every index \<open>i\<close> of type uint32, in range of the storage or past its end,
  \<open>IsSimulated s i\<close> is defined and is true exactly when \<open>i < NumSimulatedBodies s\<close>. It
  reads no other part of the state: two worlds (with whatever further fields) that agree
  on \<open>NumSimulatedBodies\<close> give the same answer. It is false at every index of the
  kinematic range and at every index of the static range.
\<close>

theorem IsSimulated_exact:
  fixes s :: "('actor, 'body, 'sbody, 'vec, 'z) FLocalSimulation_scheme"
    and s' :: "('actor2, 'body2, 'sbody2, 'vec2, 'z2) FLocalSimulation_scheme"
  shows "(IsSimulated s i \<longleftrightarrow> unat i < unat (NumSimulatedBodies s)) \<and>
         (NumSimulatedBodies s' = NumSimulatedBodies s \<longrightarrow> IsSimulated s' i = IsSimulated s i) \<and>
         (IsKinematicIndex s i \<longrightarrow> \<not> IsSimulated s i) \<and>
         (IsStaticIndex s i \<longrightarrow> \<not> IsSimulated s i)"
  by (simp add: IsSimulated_def IsKinematicIndex_def IsStaticIndex_def word_less_nat_alt)

theorem IsSimulated_exact_witness:
  "NumSimulatedBodies (world4\<lparr>SimCount := 7, Actors := []\<rparr>) = NumSimulatedBodies world4 \<and>
   IsKinematicIndex world4 2 \<and> \<not> IsSimulated world4 2 \<and>
   IsStaticIndex world4 3 \<and> \<not> IsSimulated world4 3 \<and>
   IsSimulated world4 1 \<and>
   IsSimulated (world4\<lparr>SimCount := 7, Actors := []\<rparr>) 1 \<and>
   \<not> IsSimulated world4 4294967295"
proof -
  have k: "IsKinematicIndex world4 2"
    by (simp add: IsKinematicIndex_def world4_def)
  have st: "IsStaticIndex world4 3"
    by (simp add: IsStaticIndex_def world4_def)
  have n: "NumSimulatedBodies (world4\<lparr>SimCount := 7, Actors := []\<rparr>) = NumSimulatedBodies world4"
    by simp
  have one: "IsSimulated world4 1"
    using IsSimulated_exact [of world4 1 world4] by (simp add: world4_def)
  have far: "\<not> IsSimulated world4 4294967295"
    using IsSimulated_exact [of world4 4294967295 world4] by (simp add: world4_def)
  from IsSimulated_exact [of world4 2 world4] k
  have nk: "\<not> IsSimulated world4 2" by blast
  from IsSimulated_exact [of world4 3 world4] st
  have ns: "\<not> IsSimulated world4 3" by blast
  from IsSimulated_exact [of world4 1 "world4\<lparr>SimCount := 7, Actors := []\<rparr>"] n one
  have other: "IsSimulated (world4\<lparr>SimCount := 7, Actors := []\<rparr>) 1" by blast
  show ?thesis using k st n one far nk ns other by blast
qed

subsection \<open>The creation of an actor\<close>

lemma length_insert_at: "length (insert_at n x xs) = Suc (length xs)"
  by (simp add: insert_at_def)

lemma nth_insert_at: "n \<le> length xs \<Longrightarrow> insert_at n x xs ! n = x"
  by (simp add: insert_at_def nth_append)

lemma CreateActor_lengths:
  "length (ActorHandles (CreateActor t h a b sb s)) = Suc (length (ActorHandles s)) \<and>
   length (Actors (CreateActor t h a b sb s)) = Suc (length (Actors s)) \<and>
   length (RigidBodiesData (CreateActor t h a b sb s)) = Suc (length (RigidBodiesData s)) \<and>
   length (SolverBodiesData (CreateActor t h a b sb s)) = Suc (length (SolverBodiesData s)) \<and>
   length (PendingAcceleration (CreateActor t h a b sb s)) = Suc (length (PendingAcceleration s))"
  by (cases t) (simp_all add: CreateActor_def Let_def length_insert_at)

lemma CreateActor_places_handle:
  "CreateActorIndex t s \<le> length (ActorHandles s) \<Longrightarrow>
   ActorHandles (CreateActor t h a b sb s) ! CreateActorIndex t s = h"
  by (cases t) (simp_all add: CreateActor_def Let_def nth_insert_at)

lemma CreateActor_other_types_keep_active:
  "t \<noteq> DynamicActor \<Longrightarrow>
   NumActiveSimulatedBodies (CreateActor t h a b sb (SetNumActiveBodies n s)) = n"
  by (cases t) (simp_all add: CreateActor_def SetNumActiveBodies_def Let_def)

lemma nat_sint_nonneg: "0 \<le> sint (w :: 32 word) \<Longrightarrow> nat (sint w) = unat w"
proof -
  assume nn: "0 \<le> sint w"
  have "sint w < 2 ^ 32" using sint_lt [of w] by simp
  with nn have "take_bit 32 (sint w) = sint w" by (simp add: take_bit_int_eq_self)
  then have "uint w = sint w" using uint_sint [of w] by simp
  then show ?thesis by (simp add: unat_eq_nat_uint)
qed

text \<open>
  C9. The number of active bodies that \<open>SetNumActiveBodies n\<close> set does not outlast the
  creation of a dynamic actor: the world after the creation is the one the creation
  gives when \<open>SetNumActiveBodies\<close> was not called, whatever \<open>n\<close> was; the number of active
  bodies is the number of simulated bodies again; and the bodies that count as active
  for \<open>AddRadialForce\<close> are those with a non-negative index that \<open>IsSimulated\<close> accepts.
\<close>

theorem SetNumActiveBodies_reset_by_CreateActor:
  "CreateActor DynamicActor h a b sb (SetNumActiveBodies n s) = CreateActor DynamicActor h a b sb s \<and>
   NumActiveSimulatedBodies (CreateActor DynamicActor h a b sb (SetNumActiveBodies n s)) =
     NumSimulatedBodies (CreateActor DynamicActor h a b sb (SetNumActiveBodies n s)) \<and>
   (IsActiveBody (CreateActor DynamicActor h a b sb (SetNumActiveBodies n s)) i \<longleftrightarrow>
      0 \<le> sint i \<and> IsSimulated (CreateActor DynamicActor h a b sb (SetNumActiveBodies n s)) i)"
proof (intro conjI)
  show "CreateActor DynamicActor h a b sb (SetNumActiveBodies n s) = CreateActor DynamicActor h a b sb s"
    by (simp add: CreateActor_def CreateActorIndex_def SetNumActiveBodies_def Let_def)
  show eq: "NumActiveSimulatedBodies (CreateActor DynamicActor h a b sb (SetNumActiveBodies n s)) =
      NumSimulatedBodies (CreateActor DynamicActor h a b sb (SetNumActiveBodies n s))"
    by (simp add: CreateActor_def SetNumActiveBodies_def Let_def)
  show "IsActiveBody (CreateActor DynamicActor h a b sb (SetNumActiveBodies n s)) i \<longleftrightarrow>
      0 \<le> sint i \<and> IsSimulated (CreateActor DynamicActor h a b sb (SetNumActiveBodies n s)) i"
    unfolding IsActiveBody_def IsSimulated_def eq word_less_nat_alt
    using nat_sint_nonneg [of i] by auto
qed

theorem SetNumActiveBodies_reset_by_CreateActor_witness:
  "NumActiveSimulatedBodies (SetNumActiveBodies 1 world4) = 1 \<and>
   \<not> IsActiveBody (SetNumActiveBodies 1 world4) 1 \<and>
   NumActiveSimulatedBodies (CreateActor DynamicActor 104 4 4 0 (SetNumActiveBodies 1 world4)) = 3 \<and>
   IsActiveBody (CreateActor DynamicActor 104 4 4 0 (SetNumActiveBodies 1 world4)) 1 \<and>
   IsActiveBody (CreateActor DynamicActor 104 4 4 0 (SetNumActiveBodies 1 world4)) 2 \<and>
   \<not> IsActiveBody (CreateActor DynamicActor 104 4 4 0 (SetNumActiveBodies 1 world4)) 3 \<and>
   ActorHandles (CreateActor DynamicActor 104 4 4 0 (SetNumActiveBodies 1 world4)) =
     [100, 101, 104, 102, 103]"
proof -
  let ?s = "SetNumActiveBodies 1 world4"
  let ?c = "CreateActor DynamicActor 104 4 4 0 ?s"
  note t = SetNumActiveBodies_reset_by_CreateActor [of 104 4 4 0 1 world4]
  have c: "CreateActor DynamicActor 104 4 4 0 world4 =
      world4\<lparr> ActorHandles := [100, 101, 104, 102, 103], Actors := [0, 1, 4, 2, 3],
        RigidBodiesData := [0, 1, 4, 2, 3], SolverBodiesData := [0, 0, 0, 0, 0],
        PendingAcceleration := [0, 0, 0, 0, 0], bRecreateIterationCache := True,
        NumSimulatedBodies := 3, NumActiveSimulatedBodies := 3 \<rparr>"
    by (simp add: CreateActor_def CreateActorIndex_def Let_def insert_at_def world4_def)
  have same: "?c = CreateActor DynamicActor 104 4 4 0 world4"
    using t [of 0] by blast
  have before: "NumActiveSimulatedBodies ?s = 1" "\<not> IsActiveBody ?s 1"
    by (simp_all add: SetNumActiveBodies_def IsActiveBody_def)
  have sim: "IsSimulated ?c 1" "IsSimulated ?c 2" "\<not> IsSimulated ?c 3"
    unfolding same by (simp_all add: c IsSimulated_def)
  have n: "NumActiveSimulatedBodies ?c = 3" "ActorHandles ?c = [100, 101, 104, 102, 103]"
    unfolding same by (simp_all add: c)
  have a1: "IsActiveBody ?c 1" using conjunct2 [OF conjunct2 [OF t [of 1]]] sim(1) by simp
  have a2: "IsActiveBody ?c 2" using conjunct2 [OF conjunct2 [OF t [of 2]]] sim(2) by simp
  have a3: "\<not> IsActiveBody ?c 3" using conjunct2 [OF conjunct2 [OF t [of 3]]] sim(3) by simp
  show ?thesis using before n a1 a2 a3 by blast
qed

end
